theory Spec2Isabelle
  imports Main "HOL-Library.Sublist"
begin

section \<open>Python strings\<close>

text \<open>
  Variable names are Python strings. \<open>py_in p s\<close> is the Python expression
  \<^verbatim>\<open>p in s\<close>: \<open>p\<close> occurs in \<open>s\<close> as a contiguous substring (the empty string
  occurs in every string).
\<close>

fun py_in :: "string \<Rightarrow> string \<Rightarrow> bool" where
  "py_in p [] = (p = [])"
| "py_in p (c # cs) = (prefix p (c # cs) \<or> py_in p cs)"

text \<open>
  \<open>str_replace s old new\<close> is \<^verbatim>\<open>s.replace(old, new)\<close>: every occurrence of
  \<open>old\<close>, found from left to right without overlap, is replaced by \<open>new\<close>. For the
  empty \<open>old\<close> Python inserts \<open>new\<close> before every character and at the end.
\<close>

fun str_replace :: "string \<Rightarrow> string \<Rightarrow> string \<Rightarrow> string" where
  "str_replace [] old new = (if old = [] then new else [])"
| "str_replace (c # cs) old new =
     (if old = [] then new @ c # str_replace cs old new
      else if prefix old (c # cs)
        then new @ str_replace (drop (length old) (c # cs)) old new
      else c # str_replace cs old new)"

text \<open>
  \<open>str_split sep cur s\<close> is \<^verbatim>\<open>s.split(sep)\<close> for a one-character separator,
  with \<open>cur\<close> the piece read so far: every separator ends a piece, so a string with
  \<open>n\<close> separators gives \<open>n + 1\<close> pieces, empty ones included.
\<close>

fun str_split :: "char \<Rightarrow> string \<Rightarrow> string \<Rightarrow> string list" where
  "str_split sep cur [] = [cur]"
| "str_split sep cur (c # cs) =
     (if c = sep then cur # str_split sep [] cs else str_split sep (cur @ [c]) cs)"

section \<open>The pattern tables\<close>

definition BERT_NAME_REPLACEMENTS :: "(string \<times> string) list" where
  "BERT_NAME_REPLACEMENTS =
    [(''bert'', ''bert_model''),
     (''embeddings/word_embeddings'', ''word_embeddings/embeddings''),
     (''embeddings/token_type_embeddings'', ''embedding_postprocessor/type_embeddings''),
     (''embeddings/position_embeddings'', ''embedding_postprocessor/position_embeddings''),
     (''embeddings/LayerNorm'', ''embedding_postprocessor/layer_norm''),
     (''attention/self'', ''self_attention''),
     (''attention/output/dense'', ''self_attention_output''),
     (''attention/output/LayerNorm'', ''self_attention_layer_norm''),
     (''intermediate/dense'', ''intermediate''),
     (''output/dense'', ''output''),
     (''output/LayerNorm'', ''output_layer_norm''),
     (''pooler/dense'', ''pooler_transform'')]"

definition BERT_V2_NAME_REPLACEMENTS :: "(string \<times> string) list" where
  "BERT_V2_NAME_REPLACEMENTS =
    [(''bert/'', ''''),
     (''encoder'', ''transformer''),
     (''embeddings/word_embeddings'', ''word_embeddings/embeddings''),
     (''embeddings/token_type_embeddings'', ''type_embeddings/embeddings''),
     (''embeddings/position_embeddings'', ''position_embedding/embeddings''),
     (''embeddings/LayerNorm'', ''embeddings/layer_norm''),
     (''attention/self'', ''self_attention''),
     (''attention/output/dense'', ''self_attention_output''),
     (''attention/output/LayerNorm'', ''self_attention_layer_norm''),
     (''intermediate/dense'', ''intermediate''),
     (''output/dense'', ''output''),
     (''output/LayerNorm'', ''output_layer_norm''),
     (''pooler/dense'', ''pooler_transform'')]"

section \<open>The exclusion filter\<close>

fun has_exclude_patterns :: "string \<Rightarrow> string list \<Rightarrow> bool" where
  "has_exclude_patterns name [] = False"
| "has_exclude_patterns name (p # ps) =
     (if py_in p name then True else has_exclude_patterns name ps)"

section \<open>The shape transformer\<close>

text \<open>
  What the source can raise: an index outside a shape tuple, a division by zero, a
  \<^verbatim>\<open>ValueError\<close> of numpy or TensorFlow (a reshape that numpy refuses, a variable
  name that TensorFlow refuses, a saver without variables), a name the checkpoint
  reader does not hold, and an error of the TensorFlow runtime (\<^verbatim>\<open>tf.errors.OpError\<close>)
  while the session runs and the checkpoint is written.
\<close>

datatype py_error = IndexError | ZeroDivisionError | ValueError | NotFoundError | OpError

text \<open>\<^verbatim>\<open>shape[i]\<close> for a tuple and a literal index \<open>i \<ge> 0\<close>.\<close>

definition tuple_get :: "int list \<Rightarrow> nat \<Rightarrow> py_error + int" where
  "tuple_get t i = (if i < length t then Inr (t ! i) else Inl IndexError)"

text \<open>\<^verbatim>\<open>a // b\<close> on Python integers: floor division, which is \<open>div\<close> on \<open>int\<close>.\<close>

definition floordiv :: "int \<Rightarrow> int \<Rightarrow> py_error + int" where
  "floordiv a b = (if b = 0 then Inl ZeroDivisionError else Inr (a div b))"

text \<open>
  The loop of \<^verbatim>\<open>_get_new_shape\<close> over the query, value and key patterns. A pattern
  that occurs in a name with neither \<^verbatim>\<open>kernel\<close> nor \<^verbatim>\<open>bias\<close> falls through to the
  next pattern. The elements of each list are evaluated from left to right.
\<close>

fun get_new_shape_loop ::
  "string list \<Rightarrow> string \<Rightarrow> int list \<Rightarrow> int \<Rightarrow> py_error + int list option" where
  "get_new_shape_loop [] name shape num_heads = Inr None"
| "get_new_shape_loop (pattern # patterns) name shape num_heads =
     (if py_in pattern name then
        (if py_in ''kernel'' name then
           (case tuple_get shape 0 of Inl e \<Rightarrow> Inl e | Inr d0 \<Rightarrow>
             (case tuple_get shape 1 of Inl e \<Rightarrow> Inl e | Inr d1 \<Rightarrow>
               (case floordiv d1 num_heads of Inl e \<Rightarrow> Inl e | Inr q \<Rightarrow>
                  Inr (Some [d0, num_heads, q]))))
         else if py_in ''bias'' name then
           (case tuple_get shape 0 of Inl e \<Rightarrow> Inl e | Inr d0 \<Rightarrow>
             (case floordiv d0 num_heads of Inl e \<Rightarrow> Inl e | Inr q \<Rightarrow>
                Inr (Some [num_heads, q])))
         else get_new_shape_loop patterns name shape num_heads)
      else get_new_shape_loop patterns name shape num_heads)"

definition get_new_shape :: "string \<Rightarrow> int list \<Rightarrow> int \<Rightarrow> py_error + int list option" where
  "get_new_shape name shape num_heads =
     (if py_in ''attention/output/dense/kernel'' name then
        (case tuple_get shape 0 of Inl e \<Rightarrow> Inl e | Inr d0 \<Rightarrow>
          (case floordiv d0 num_heads of Inl e \<Rightarrow> Inl e | Inr q \<Rightarrow>
            (case tuple_get shape 1 of Inl e \<Rightarrow> Inl e | Inr d1 \<Rightarrow>
               Inr (Some [num_heads, q, d1]))))
      else if py_in ''attention/output/dense/bias'' name then Inr (Some shape)
      else get_new_shape_loop
             [''attention/self/query'', ''attention/self/value'', ''attention/self/key'']
             name shape num_heads)"

section \<open>Flags\<close>

text \<open>
  The command-line flags the conversion reads: \<^verbatim>\<open>exclude_patterns\<close> (default
  \<^verbatim>\<open>None\<close>), \<^verbatim>\<open>num_heads\<close> (default \<open>-1\<close>) and \<^verbatim>\<open>use_v2_names\<close> (default
  \<^verbatim>\<open>False\<close>). The two checkpoint paths only name files.
\<close>

record flags =
  exclude_patterns :: "string option"
  num_heads :: int
  use_v2_names :: bool

section \<open>The name rewriter\<close>

text \<open>
  The loop of \<^verbatim>\<open>_bert_name_replacement\<close> over a rule table: each rule whose source
  pattern occurs in the current name replaces all its occurrences, and the next rule
  sees the updated name. The logging call has no effect on the result.
\<close>

fun name_replacement_loop :: "(string \<times> string) list \<Rightarrow> string \<Rightarrow> string" where
  "name_replacement_loop [] var_name = var_name"
| "name_replacement_loop ((src_pattern, tgt_pattern) # rest) var_name =
     name_replacement_loop rest
       (if py_in src_pattern var_name
        then str_replace var_name src_pattern tgt_pattern
        else var_name)"

definition bert_name_replacement :: "flags \<Rightarrow> string \<Rightarrow> string" where
  "bert_name_replacement FLAGS var_name =
     name_replacement_loop
       (if use_v2_names FLAGS then BERT_V2_NAME_REPLACEMENTS else BERT_NAME_REPLACEMENTS)
       var_name"

section \<open>Tensors, variables and the checkpoint reader\<close>

text \<open>
  A tensor is its shape and its elements in row-major order; the element type plays
  no part in the conversion.
\<close>

record 'a tensor =
  tensor_shape :: "int list"
  tensor_elems :: "'a list"

text \<open>
  \<^verbatim>\<open>np.reshape(tensor, newshape)\<close>: the elements stay as they are and the shape is
  replaced, provided the element counts agree. One negative dimension is inferred
  from the others; numpy raises \<^verbatim>\<open>ValueError\<close> in every other case.
\<close>

definition np_reshape :: "'a tensor \<Rightarrow> int list \<Rightarrow> py_error + 'a tensor" where
  "np_reshape t newshape =
     (let s_original = prod_list (tensor_shape t);
          s_known = prod_list (filter (\<lambda>d. 0 \<le> d) newshape);
          unknown = length (filter (\<lambda>d. d < 0) newshape)
      in if unknown = 0 then
           (if s_known = s_original then Inr (t\<lparr>tensor_shape := newshape\<rparr>)
            else Inl ValueError)
         else if unknown = 1 then
           (if s_known = 0 then Inl ValueError
            else if s_original mod s_known = 0 then
              Inr (t\<lparr>tensor_shape :=
                     map (\<lambda>d. if d < 0 then s_original div s_known else d) newshape\<rparr>)
            else Inl ValueError)
         else Inl ValueError)"

text \<open>
  What the conversion needs to know of the TensorFlow library and of the file system
  it writes to, neither of which is part of the source: which names
  \<^verbatim>\<open>tf.Variable\<close> accepts as a scope name at the root of a fresh graph (the pattern
  differs between releases), and whether running the initializer and
  \<^verbatim>\<open>saver.save\<close> in the session raises.
\<close>

record tensorflow =
  valid_scope_name :: "string \<Rightarrow> bool"
  session_error :: "py_error option"

record 'a variable =
  variable_name :: string
  initial_value :: "'a tensor"

text \<open>
  \<^verbatim>\<open>tf.Variable(tensor, name=var_name)\<close> raises \<^verbatim>\<open>ValueError\<close> for a name that
  is not a valid scope name.
\<close>

definition Variable :: "tensorflow \<Rightarrow> 'a tensor \<Rightarrow> string \<Rightarrow> py_error + 'a variable" where
  "Variable tf tensor name =
     (if valid_scope_name tf name
      then Inr \<lparr>variable_name = name, initial_value = tensor\<rparr>
      else Inl ValueError)"

text \<open>
  \<^verbatim>\<open>tf.train.Saver(var_list)\<close> for a dictionary raises \<^verbatim>\<open>ValueError\<close>
  (no variables to save) when the dictionary is empty; otherwise the saver will
  write the dictionary as it is.
\<close>

definition Saver :: "(string \<rightharpoonup> 'a variable) \<Rightarrow> py_error + (string \<rightharpoonup> 'a variable)" where
  "Saver var_list = (if var_list = Map.empty then Inl ValueError else Inr var_list)"

text \<open>
  The checkpoint reader holds the named tensors of the source checkpoint, in the
  order in which \<^verbatim>\<open>get_variable_to_shape_map\<close> enumerates them.
\<close>

type_synonym 'a checkpoint = "(string \<times> 'a tensor) list"

definition get_variable_to_shape_map :: "'a checkpoint \<Rightarrow> (string \<times> int list) list" where
  "get_variable_to_shape_map reader = map (\<lambda>(n, t). (n, tensor_shape t)) reader"

definition get_tensor :: "'a checkpoint \<Rightarrow> string \<Rightarrow> py_error + 'a tensor" where
  "get_tensor reader n =
     (case map_of reader n of None \<Rightarrow> Inl NotFoundError | Some t \<Rightarrow> Inr t)"

section \<open>The conversion\<close>

record 'a conversion =
  new_variable_map :: "string \<rightharpoonup> 'a variable"
  conversion_map :: "string \<rightharpoonup> string"

text \<open>
  The test \<^verbatim>\<open>exclude_patterns and _has_exclude_patterns(var_name, exclude_patterns)\<close>:
  \<^verbatim>\<open>None\<close> and the empty list are false.
\<close>

definition is_excluded :: "string list option \<Rightarrow> string \<Rightarrow> bool" where
  "is_excluded excl var_name =
     (case excl of
        None \<Rightarrow> False
      | Some [] \<Rightarrow> False
      | Some (p # ps) \<Rightarrow> has_exclude_patterns var_name (p # ps))"

text \<open>
  The body of the loop of \<^verbatim>\<open>convert_names\<close> for a variable that is not excluded.
  \<^verbatim>\<open>if new_shape:\<close> is false for \<^verbatim>\<open>None\<close> and for the empty tuple.
\<close>

definition convert_variable ::
  "tensorflow \<Rightarrow> flags \<Rightarrow> 'a checkpoint \<Rightarrow> string \<Rightarrow> 'a conversion \<Rightarrow>
   py_error + 'a conversion" where
  "convert_variable tf FLAGS reader var_name st =
     (let new_var_name = bert_name_replacement FLAGS var_name in
      (case get_tensor reader var_name of Inl e \<Rightarrow> Inl e | Inr tensor \<Rightarrow>
        (case (if num_heads FLAGS > 0
               then get_new_shape var_name (tensor_shape tensor) (num_heads FLAGS)
               else Inr None) of Inl e \<Rightarrow> Inl e | Inr new_shape \<Rightarrow>
          (case (case new_shape of
                   None \<Rightarrow> Inr tensor
                 | Some [] \<Rightarrow> Inr tensor
                 | Some (d # ds) \<Rightarrow> np_reshape tensor (d # ds)) of
             Inl e \<Rightarrow> Inl e
           | Inr tensor' \<Rightarrow>
              (case Variable tf tensor' var_name of
                 Inl e \<Rightarrow> Inl e
               | Inr var \<Rightarrow>
                   Inr \<lparr>new_variable_map = (new_variable_map st)(new_var_name \<mapsto> var),
                        conversion_map =
                          (if new_var_name = var_name then conversion_map st
                           else (conversion_map st)(var_name \<mapsto> new_var_name))\<rparr>)))))"

text \<open>
  The loop over the names of the checkpoint. Beside the two dictionaries it carries
  the names passed to \<^verbatim>\<open>reader.get_tensor\<close> so far; an exception ends the loop and
  loses the dictionaries, not the reads that have happened.
\<close>

fun convert_names_loop ::
  "tensorflow \<Rightarrow> flags \<Rightarrow> 'a checkpoint \<Rightarrow> string list option \<Rightarrow> string list \<Rightarrow>
   string list \<times> 'a conversion \<Rightarrow> string list \<times> (py_error + 'a conversion)" where
  "convert_names_loop tf FLAGS reader excl [] (reads, st) = (reads, Inr st)"
| "convert_names_loop tf FLAGS reader excl (var_name # names) (reads, st) =
     (if is_excluded excl var_name
      then convert_names_loop tf FLAGS reader excl names (reads, st)
      else (case convert_variable tf FLAGS reader var_name st of
              Inl e \<Rightarrow> (reads @ [var_name], Inl e)
            | Inr st' \<Rightarrow>
                convert_names_loop tf FLAGS reader excl names (reads @ [var_name], st')))"

text \<open>
  The first part of \<^verbatim>\<open>convert_names\<close>, from the two empty dictionaries to the end
  of the loop: the reads of the tensor store, and the dictionaries as they are handed
  to the saver, or the exception raised.
\<close>

definition convert_names_dictionaries ::
  "tensorflow \<Rightarrow> flags \<Rightarrow> 'a checkpoint \<Rightarrow> string list option \<Rightarrow>
   string list \<times> (py_error + 'a conversion)" where
  "convert_names_dictionaries tf FLAGS reader excl =
     convert_names_loop tf FLAGS reader excl (map fst (get_variable_to_shape_map reader))
       ([], \<lparr>new_variable_map = Map.empty, conversion_map = Map.empty\<rparr>)"

text \<open>
  \<^verbatim>\<open>convert_names\<close>: the loop, the saver made from the new variable map, and the
  session that initializes the variables and writes the checkpoint. A run that
  succeeds has written \<open>new_variable_map\<close> and logged \<open>conversion_map\<close>; these two are
  its result here, beside the reads of the tensor store.
\<close>

definition convert_names ::
  "tensorflow \<Rightarrow> flags \<Rightarrow> 'a checkpoint \<Rightarrow> string list option \<Rightarrow>
   string list \<times> (py_error + 'a conversion)" where
  "convert_names tf FLAGS reader excl =
     (case convert_names_dictionaries tf FLAGS reader excl of
        (reads, Inl e) \<Rightarrow> (reads, Inl e)
      | (reads, Inr st) \<Rightarrow>
         (case Saver (new_variable_map st) of
            Inl e \<Rightarrow> (reads, Inl e)
          | Inr saver \<Rightarrow>
             (case session_error tf of
                Some e \<Rightarrow> (reads, Inl e)
              | None \<Rightarrow> (reads, Inr st))))"

definition main ::
  "tensorflow \<Rightarrow> flags \<Rightarrow> 'a checkpoint \<Rightarrow> string list \<times> (py_error + 'a conversion)" where
  "main tf FLAGS reader =
     convert_names tf FLAGS reader
       (case exclude_patterns FLAGS of
          None \<Rightarrow> None
        | Some s \<Rightarrow> if s = [] then None else Some (str_split CHR '','' [] s))"

section \<open>A TensorFlow for the examples\<close>

text \<open>
  Every TensorFlow 1.x release accepts as the name of a variable at the root scope a
  name that starts with a letter, a digit or a dot and goes on with letters, digits
  and the characters \<^verbatim>\<open>_ . - /\<close>. The examples below run with these names valid and
  with a session that raises nothing.
\<close>

definition scope_char :: "char \<Rightarrow> bool" where
  "scope_char c =
     (c \<in> set ''abcdefghijklmnopqrstuvwxyz_/0123456789ABCDEFGHIJKLMNOPQRSTUVWXYZ.-'')"

fun plain_scope_name :: "string \<Rightarrow> bool" where
  "plain_scope_name [] = False"
| "plain_scope_name (c # cs) =
     (scope_char c \<and> c \<notin> set ''_/-'' \<and> list_all scope_char cs)"

definition example_tf :: tensorflow where
  "example_tf = \<lparr>valid_scope_name = plain_scope_name, session_error = None\<rparr>"

section \<open>Substring tests and the exclusion filter\<close>

text \<open>
  \<open>py_in\<close> is containment as a contiguous sublist, and the exclusion loop returns
  true exactly when some pattern of the list occurs in the name.
\<close>

lemma py_in_Nil: "py_in [] s"
  by (cases s) simp_all

lemma py_in_iff_sublist: "py_in p s \<longleftrightarrow> sublist p s"
  by (induction s) (auto simp: sublist_Cons_right)

lemma py_in_trans: "py_in p q \<Longrightarrow> py_in q s \<Longrightarrow> py_in p s"
  unfolding py_in_iff_sublist by (rule sublist_order.order_trans)

lemma has_exclude_patterns_iff:
  "has_exclude_patterns name ps \<longleftrightarrow> (\<exists>p\<in>set ps. py_in p name)"
  by (induction ps) auto

lemma is_excluded_iff:
  "is_excluded excl n \<longleftrightarrow> (\<exists>ps. excl = Some ps \<and> (\<exists>p\<in>set ps. py_in p n))"
  by (auto simp: is_excluded_def has_exclude_patterns_iff split: option.splits list.splits)

section \<open>Invariants of the conversion loop\<close>

text \<open>
  A successful step stores one variable under the rewritten name and records the
  rename when the name changed. The loop lemmas describe the reads, the rename map,
  the keys and the values of the variable map after any number of steps.
\<close>

lemma names_of_reader: "map fst (get_variable_to_shape_map reader) = map fst reader"
  by (induction reader) (auto simp: get_variable_to_shape_map_def)

lemma convert_variable_Inr:
  assumes "convert_variable tf F r v st = Inr st'"
  shows "\<exists>t. new_variable_map st' =
             (new_variable_map st)
               (bert_name_replacement F v \<mapsto> \<lparr>variable_name = v, initial_value = t\<rparr>) \<and>
           conversion_map st' =
             (if bert_name_replacement F v = v then conversion_map st
              else (conversion_map st)(v \<mapsto> bert_name_replacement F v))"
  using assms
  by (auto simp: convert_variable_def Variable_def Let_def
      split: sum.splits option.splits list.splits if_splits)

lemma loop_reads:
  "set (fst (convert_names_loop tf F r e names (reads, st)))
     \<subseteq> set reads \<union> {n \<in> set names. \<not> is_excluded e n}"
proof (induction names arbitrary: reads st)
  case Nil
  show ?case by simp
next
  case (Cons n names)
  show ?case
  proof (cases "is_excluded e n")
    case True
    with Cons.IH [of reads st] show ?thesis by auto
  next
    case False
    show ?thesis
    proof (cases "convert_variable tf F r n st")
      case (Inl err)
      with False show ?thesis by auto
    next
      case (Inr st1)
      with False Cons.IH [of "reads @ [n]" st1] show ?thesis by auto
    qed
  qed
qed

lemma loop_conversion_map:
  "convert_names_loop tf F r e names (reads, st) = (reads', Inr st') \<Longrightarrow>
   conversion_map st' k =
     (if k \<in> set names \<and> \<not> is_excluded e k \<and> bert_name_replacement F k \<noteq> k
      then Some (bert_name_replacement F k) else conversion_map st k)"
proof (induction names arbitrary: reads st)
  case Nil
  then show ?case by simp
next
  case (Cons n names)
  show ?case
  proof (cases "is_excluded e n")
    case True
    with Cons.prems have "convert_names_loop tf F r e names (reads, st) = (reads', Inr st')"
      by simp
    from Cons.IH [OF this] True show ?thesis by auto
  next
    case False
    show ?thesis
    proof (cases "convert_variable tf F r n st")
      case (Inl err)
      with False Cons.prems show ?thesis by simp
    next
      case (Inr st1)
      with False Cons.prems
      have "convert_names_loop tf F r e names (reads @ [n], st1) = (reads', Inr st')"
        by simp
      from Cons.IH [OF this] convert_variable_Inr [OF Inr] False show ?thesis
        by (auto split: if_splits)
    qed
  qed
qed

lemma loop_dom:
  "convert_names_loop tf F r e names (reads, st) = (reads', Inr st') \<Longrightarrow>
   dom (new_variable_map st') =
     dom (new_variable_map st) \<union> bert_name_replacement F ` {n \<in> set names. \<not> is_excluded e n}"
proof (induction names arbitrary: reads st)
  case Nil
  then show ?case by simp
next
  case (Cons n names)
  show ?case
  proof (cases "is_excluded e n")
    case True
    with Cons.prems have "convert_names_loop tf F r e names (reads, st) = (reads', Inr st')"
      by simp
    from Cons.IH [OF this] True show ?thesis by auto
  next
    case False
    show ?thesis
    proof (cases "convert_variable tf F r n st")
      case (Inl err)
      with False Cons.prems show ?thesis by simp
    next
      case (Inr st1)
      with False Cons.prems
      have "convert_names_loop tf F r e names (reads @ [n], st1) = (reads', Inr st')"
        by simp
      from Cons.IH [OF this]
      have 1: "dom (new_variable_map st') =
                 dom (new_variable_map st1) \<union>
                 bert_name_replacement F ` {n \<in> set names. \<not> is_excluded e n}" .
      from convert_variable_Inr [OF Inr]
      have 2: "dom (new_variable_map st1) =
                 insert (bert_name_replacement F n) (dom (new_variable_map st))"
        by auto
      have 3: "{m \<in> set (n # names). \<not> is_excluded e m} =
                 insert n {m \<in> set names. \<not> is_excluded e m}"
        using False by auto
      show ?thesis
        unfolding 1 2 3 by auto
    qed
  qed
qed

lemma loop_values:
  "convert_names_loop tf F r e names (reads, st) = (reads', Inr st') \<Longrightarrow>
   new_variable_map st' k = Some v \<Longrightarrow>
   new_variable_map st k = Some v \<or>
   (variable_name v \<in> set names \<and> \<not> is_excluded e (variable_name v))"
proof (induction names arbitrary: reads st)
  case Nil
  then show ?case by simp
next
  case (Cons n names)
  show ?case
  proof (cases "is_excluded e n")
    case True
    with Cons.prems have "convert_names_loop tf F r e names (reads, st) = (reads', Inr st')"
      by simp
    from Cons.IH [OF this Cons.prems(2)] show ?thesis by auto
  next
    case False
    show ?thesis
    proof (cases "convert_variable tf F r n st")
      case (Inl err)
      with False Cons.prems show ?thesis by simp
    next
      case (Inr st1)
      with False Cons.prems
      have "convert_names_loop tf F r e names (reads @ [n], st1) = (reads', Inr st')"
        by simp
      from Cons.IH [OF this Cons.prems(2)] convert_variable_Inr [OF Inr] False show ?thesis
        by (auto split: if_splits)
    qed
  qed
qed

subsection \<open>Whole runs\<close>

lemma convert_names_run:
  assumes "snd (convert_names tf F r e) = Inr st"
  shows "\<exists>rs. convert_names_loop tf F r e (map fst r)
           ([], \<lparr>new_variable_map = Map.empty, conversion_map = Map.empty\<rparr>) = (rs, Inr st)"
  using assms
  by (auto simp: convert_names_def convert_names_dictionaries_def names_of_reader
      split: prod.splits sum.splits option.splits)

lemma convert_names_reads:
  "fst (convert_names tf F r e) = fst (convert_names_dictionaries tf F r e)"
  by (auto simp: convert_names_def split: prod.splits sum.splits option.splits)

lemma loop_all_excluded:
  "(\<And>n. n \<in> set names \<Longrightarrow> is_excluded e n) \<Longrightarrow>
   convert_names_loop tf F r e names (reads, st) = (reads, Inr st)"
  by (induction names) simp_all

subsection \<open>Empty pieces of a split\<close>

lemma split_leading: "[] \<in> set (str_split sep [] (sep # s))"
  by simp

lemma split_trailing: "[] \<in> set (str_split sep cur (s @ [sep]))"
  by (induction s arbitrary: cur) auto

lemma split_doubled: "[] \<in> set (str_split sep cur (a @ sep # sep # b))"
  by (induction a arbitrary: cur) auto

subsection \<open>An exclusion list with the empty string\<close>

lemma excluded_by_empty_pattern: "[] \<in> set ps \<Longrightarrow> is_excluded (Some ps) n"
  using py_in_Nil [of n] unfolding is_excluded_iff by auto

lemma dictionaries_empty_pattern:
  assumes "[] \<in> set ps"
  shows "convert_names_dictionaries tf F r (Some ps) =
           ([], Inr \<lparr>new_variable_map = Map.empty, conversion_map = Map.empty\<rparr>)"
  unfolding convert_names_dictionaries_def
  by (intro loop_all_excluded excluded_by_empty_pattern [OF assms])

lemma convert_names_empty_pattern:
  assumes "[] \<in> set ps"
  shows "convert_names tf F r (Some ps) = ([], Inl ValueError)"
  by (simp add: convert_names_def dictionaries_empty_pattern [OF assms] Saver_def)

subsection \<open>Shapes and rule tables\<close>

lemmas shape_simps = get_new_shape_def tuple_get_def floordiv_def

lemma kernel_in_output_kernel:
  "py_in ''attention/output/dense/kernel'' name \<Longrightarrow> py_in ''kernel'' name"
  by (rule py_in_trans [of _ "''attention/output/dense/kernel''"]) simp

lemma name_replacement_loop_append:
  "name_replacement_loop (rules @ [(src, tgt)]) name =
     (if py_in src (name_replacement_loop rules name)
      then str_replace (name_replacement_loop rules name) src tgt
      else name_replacement_loop rules name)"
  by (induction rules name rule: name_replacement_loop.induct) simp_all

subsection \<open>Runs without reshaping\<close>

lemma convert_variable_no_reshape:
  assumes "num_heads F \<le> 0" and "convert_variable tf F r n st = Inr st1"
  shows "\<exists>t. (n, t) \<in> set r \<and>
           new_variable_map st1 =
             (new_variable_map st)
               (bert_name_replacement F n \<mapsto> \<lparr>variable_name = n, initial_value = t\<rparr>)"
  using assms
  by (auto simp: convert_variable_def get_tensor_def Variable_def Let_def
      split: option.splits if_splits dest: map_of_SomeD)

lemma convert_variable_no_reshape_succeeds:
  assumes "num_heads F \<le> 0" and "n \<in> fst ` set r" and "valid_scope_name tf n"
  shows "\<exists>st1. convert_variable tf F r n st = Inr st1"
proof -
  from assms(2) obtain t where "map_of r n = Some t"
    by (cases "map_of r n") (auto simp: map_of_eq_None_iff)
  with assms(1,3) show ?thesis
    by (simp add: convert_variable_def get_tensor_def Variable_def Let_def)
qed

lemma loop_no_reshape:
  assumes "num_heads F \<le> 0"
  shows "convert_names_loop tf F r e names (reads, st) = (reads', Inr st') \<Longrightarrow>
    new_variable_map st' k = Some v \<Longrightarrow>
    new_variable_map st k = Some v \<or> (variable_name v, initial_value v) \<in> set r"
proof (induction names arbitrary: reads st)
  case Nil
  then show ?case by simp
next
  case (Cons n names)
  show ?case
  proof (cases "is_excluded e n")
    case True
    with Cons.prems(1)
    have "convert_names_loop tf F r e names (reads, st) = (reads', Inr st')"
      by simp
    from Cons.IH [OF this Cons.prems(2)] show ?thesis .
  next
    case False
    show ?thesis
    proof (cases "convert_variable tf F r n st")
      case (Inl err)
      with False Cons.prems(1) show ?thesis by simp
    next
      case (Inr st1)
      with False Cons.prems(1)
      have "convert_names_loop tf F r e names (reads @ [n], st1) = (reads', Inr st')"
        by simp
      from Cons.IH [OF this Cons.prems(2)]
      have 1: "new_variable_map st1 k = Some v \<or>
          (variable_name v, initial_value v) \<in> set r" .
      from convert_variable_no_reshape [OF assms Inr] obtain t
        where t: "(n, t) \<in> set r"
          and st1: "new_variable_map st1 =
            (new_variable_map st)
              (bert_name_replacement F n \<mapsto> \<lparr>variable_name = n, initial_value = t\<rparr>)"
        by blast
      from 1 t show ?thesis
        unfolding st1 by (cases "k = bert_name_replacement F n") auto
    qed
  qed
qed

lemma loop_no_reshape_succeeds:
  assumes "num_heads F \<le> 0"
  shows "set names \<subseteq> fst ` set r \<Longrightarrow>
    (\<And>n. n \<in> set names \<Longrightarrow> is_excluded e n \<or> valid_scope_name tf n) \<Longrightarrow>
    \<exists>reads' st'. convert_names_loop tf F r e names (reads, st) = (reads', Inr st')"
proof (induction names arbitrary: reads st)
  case Nil
  then show ?case by simp
next
  case (Cons n names)
  then have sub: "set names \<subseteq> fst ` set r" and n: "n \<in> fst ` set r"
    by auto
  have rest: "is_excluded e m \<or> valid_scope_name tf m" if "m \<in> set names" for m
    using Cons.prems(2) [of m] that by simp
  show ?case
  proof (cases "is_excluded e n")
    case True
    with Cons.IH [OF sub rest, of reads st] show ?thesis by simp
  next
    case False
    with Cons.prems(2) [of n] have "valid_scope_name tf n"
      by simp
    from convert_variable_no_reshape_succeeds [OF assms n this, of st] obtain st1
      where step: "convert_variable tf F r n st = Inr st1" ..
    with False Cons.IH [OF sub rest, of "reads @ [n]" st1] show ?thesis by simp
  qed
qed

subsection \<open>Reshaping an attention-output kernel\<close>

lemma np_reshape_output_kernel:
  assumes "tensor_shape t = [rows, cols]" and "0 < h" and "0 \<le> rows" and "0 \<le> cols"
    and "h dvd rows"
  shows "np_reshape t [h, rows div h, cols] = Inr (t\<lparr>tensor_shape := [h, rows div h, cols]\<rparr>)"
proof -
  from assms(2,3) have "0 \<le> rows div h"
    by (simp add: pos_imp_zdiv_nonneg_iff)
  moreover from assms(5) have "h * (rows div h) = rows"
    by simp
  ultimately show ?thesis
    using assms(1,2,4) by (simp add: np_reshape_def)
qed

subsection \<open>Unfolding a run on a concrete checkpoint\<close>

lemmas run_simps =
  convert_names_def convert_names_dictionaries_def convert_variable_def Variable_def
  Saver_def example_tf_def scope_char_def get_variable_to_shape_map_def get_tensor_def
  is_excluded_def bert_name_replacement_def BERT_NAME_REPLACEMENTS_def
  BERT_V2_NAME_REPLACEMENTS_def Let_def

subsection \<open>Runs that TensorFlow ends\<close>

text \<open>
  With the example TensorFlow, a checkpoint whose only variable is called \<^verbatim>\<open>_bert\<close>
  is read but not converted, since \<^verbatim>\<open>tf.Variable\<close> refuses the name; an empty
  checkpoint leaves the saver without variables.
\<close>

lemma underscore_name_raises:
  "convert_names example_tf
     \<lparr>exclude_patterns = None, num_heads = - 1, use_v2_names = False\<rparr>
     [(''_bert'', \<lparr>tensor_shape = [2], tensor_elems = [0, 0 :: int]\<rparr>)] None =
   ([''_bert''], Inl ValueError)"
  by (simp add: run_simps)

lemma empty_checkpoint_raises:
  "convert_names tf FLAGS [] excl = ([], Inl ValueError)"
  by (simp add: convert_names_def convert_names_dictionaries_def
      get_variable_to_shape_map_def Saver_def)

section \<open>The rename audit\<close>

text \<open>
  Claim C1, as amended. For every source checkpoint and every entry
  \<open>(old_name, new_name)\<close> of the rename audit of a conversion that succeeds,
  \<open>new_name\<close> is a key of the new variable map, and \<open>old_name\<close> is a key of the new
  variable map exactly when some variable of the checkpoint that is not excluded is
  rewritten to \<open>old_name\<close>. So \<open>old_name\<close> is absent whenever no converted variable
  takes its name.
\<close>

theorem audit_entries:
  assumes "snd (convert_names tf FLAGS reader excl) = Inr st"
    and "conversion_map st old_name = Some new_name"
  shows "new_name \<in> dom (new_variable_map st) \<and>
         (old_name \<in> dom (new_variable_map st) \<longleftrightarrow>
            (\<exists>v \<in> fst ` set reader.
               \<not> is_excluded excl v \<and> bert_name_replacement FLAGS v = old_name))"
proof -
  obtain reads where run:
    "convert_names_loop tf FLAGS reader excl (map fst reader)
       ([], \<lparr>new_variable_map = Map.empty, conversion_map = Map.empty\<rparr>) = (reads, Inr st)"
    using convert_names_run [OF assms(1)] by blast
  from loop_conversion_map [OF run, of old_name] assms(2)
  have old: "old_name \<in> fst ` set reader" "\<not> is_excluded excl old_name"
    and new: "new_name = bert_name_replacement FLAGS old_name"
    by (auto split: if_splits)
  have keys: "dom (new_variable_map st) =
      bert_name_replacement FLAGS ` {n \<in> fst ` set reader. \<not> is_excluded excl n}"
    using loop_dom [OF run] by simp
  from old new show ?thesis
    unfolding keys by force
qed

text \<open>
  The theorem at a checkpoint with the one variable \<^verbatim>\<open>bert/pooler/dense/kernel\<close>
  under the v1 rules.
\<close>

theorem audit_entries_witness:
  "isl (snd (convert_names example_tf
        \<lparr>exclude_patterns = None, num_heads = - 1, use_v2_names = False\<rparr>
        [(''bert/pooler/dense/kernel'', \<lparr>tensor_shape = [2], tensor_elems = [0, 0 :: int]\<rparr>)]
        None)) = False \<and>
   conversion_map
     (projr (snd (convert_names example_tf
        \<lparr>exclude_patterns = None, num_heads = - 1, use_v2_names = False\<rparr>
        [(''bert/pooler/dense/kernel'', \<lparr>tensor_shape = [2], tensor_elems = [0, 0 :: int]\<rparr>)]
        None)))
     ''bert/pooler/dense/kernel'' = Some ''bert_model/pooler_transform/kernel'' \<and>
   ''bert_model/pooler_transform/kernel'' \<in> dom (new_variable_map
      (projr (snd (convert_names example_tf
        \<lparr>exclude_patterns = None, num_heads = - 1, use_v2_names = False\<rparr>
        [(''bert/pooler/dense/kernel'', \<lparr>tensor_shape = [2], tensor_elems = [0, 0 :: int]\<rparr>)]
        None)))) \<and>
   ''bert/pooler/dense/kernel'' \<notin> dom (new_variable_map
      (projr (snd (convert_names example_tf
        \<lparr>exclude_patterns = None, num_heads = - 1, use_v2_names = False\<rparr>
        [(''bert/pooler/dense/kernel'', \<lparr>tensor_shape = [2], tensor_elems = [0, 0 :: int]\<rparr>)]
        None))))"
  using audit_entries [of example_tf
      "\<lparr>exclude_patterns = None, num_heads = - 1, use_v2_names = False\<rparr>"
      "[(''bert/pooler/dense/kernel'', \<lparr>tensor_shape = [2], tensor_elems = [0, 0 :: int]\<rparr>)]"
      None
      "projr (snd (convert_names example_tf
        \<lparr>exclude_patterns = None, num_heads = - 1, use_v2_names = False\<rparr>
        [(''bert/pooler/dense/kernel'', \<lparr>tensor_shape = [2], tensor_elems = [0, 0 :: int]\<rparr>)]
        None))"
      "''bert/pooler/dense/kernel''" "''bert_model/pooler_transform/kernel''"]
  by (simp add: run_simps)

text \<open>
  Claim C1 as written fails: in a checkpoint that holds both \<^verbatim>\<open>bert\<close> and
  \<^verbatim>\<open>bert_model\<close>, the v1 rules rename \<^verbatim>\<open>bert\<close> to \<^verbatim>\<open>bert_model\<close> and
  \<^verbatim>\<open>bert_model\<close> to \<^verbatim>\<open>bert_model_model\<close>, so the audit key \<^verbatim>\<open>bert_model\<close> is
  also a key of the new variable map.
\<close>

theorem audit_old_name_counterexample:
  "conversion_map
     (projr (snd (convert_names example_tf
        \<lparr>exclude_patterns = None, num_heads = - 1, use_v2_names = False\<rparr>
        [(''bert'', \<lparr>tensor_shape = [2], tensor_elems = [0, 0 :: int]\<rparr>),
         (''bert_model'', \<lparr>tensor_shape = [2], tensor_elems = [1, 1]\<rparr>)]
        None)))
     ''bert_model'' = Some ''bert_model_model'' \<and>
   ''bert_model'' \<in> dom (new_variable_map
     (projr (snd (convert_names example_tf
        \<lparr>exclude_patterns = None, num_heads = - 1, use_v2_names = False\<rparr>
        [(''bert'', \<lparr>tensor_shape = [2], tensor_elems = [0, 0 :: int]\<rparr>),
         (''bert_model'', \<lparr>tensor_shape = [2], tensor_elems = [1, 1]\<rparr>)]
        None)))) \<and>
   isl (snd (convert_names example_tf
        \<lparr>exclude_patterns = None, num_heads = - 1, use_v2_names = False\<rparr>
        [(''bert'', \<lparr>tensor_shape = [2], tensor_elems = [0, 0 :: int]\<rparr>),
         (''bert_model'', \<lparr>tensor_shape = [2], tensor_elems = [1, 1]\<rparr>)]
        None)) = False"
  by (simp add: run_simps)

section \<open>Exclusion\<close>

text \<open>
  Claim C8. A variable whose name contains a pattern of the exclusion list is never
  passed to \<^verbatim>\<open>get_tensor\<close>, whether the run succeeds or raises; after a successful
  run it has no entry in the rename audit and no variable of the new variable map was
  made from it. The filter is true exactly for the names that contain a listed
  pattern, and an absent or empty list excludes nothing.
\<close>

theorem exclusion_complete:
  assumes "p \<in> set ps" and "py_in p name"
  shows "name \<notin> set (fst (convert_names tf FLAGS reader (Some ps))) \<and>
         (\<forall>st. snd (convert_names tf FLAGS reader (Some ps)) = Inr st \<longrightarrow>
            conversion_map st name = None \<and>
            (\<forall>k v. new_variable_map st k = Some v \<longrightarrow> variable_name v \<noteq> name)) \<and>
         (\<forall>n qs. has_exclude_patterns n qs \<longleftrightarrow> (\<exists>q\<in>set qs. py_in q n)) \<and>
         (\<forall>n qs. is_excluded (Some qs) n \<longleftrightarrow> (\<exists>q\<in>set qs. py_in q n)) \<and>
         (\<forall>n. \<not> is_excluded None n) \<and>
         (\<forall>n. \<not> is_excluded (Some []) n)"
proof -
  let ?init = "\<lparr>new_variable_map = Map.empty, conversion_map = Map.empty\<rparr> :: 'a conversion"
  have ex: "is_excluded (Some ps) name"
    using assms unfolding is_excluded_iff by auto
  have reads: "name \<notin> set (fst (convert_names tf FLAGS reader (Some ps)))"
    using loop_reads [of tf FLAGS reader "Some ps" "map fst reader" "[]" ?init] ex
    unfolding convert_names_reads convert_names_dictionaries_def names_of_reader by auto
  have maps: "conversion_map st name = None \<and>
      (\<forall>k v. new_variable_map st k = Some v \<longrightarrow> variable_name v \<noteq> name)"
    if ok: "snd (convert_names tf FLAGS reader (Some ps)) = Inr st" for st
  proof -
    obtain rs where run:
      "convert_names_loop tf FLAGS reader (Some ps) (map fst reader) ([], ?init) = (rs, Inr st)"
      using convert_names_run [OF ok] by blast
    have "conversion_map st name = None"
      using loop_conversion_map [OF run, of name] ex by simp
    moreover have "variable_name v \<noteq> name" if "new_variable_map st k = Some v" for k v
      using loop_values [OF run that] ex by auto
    ultimately show ?thesis by blast
  qed
  have "\<not> is_excluded None n" and "\<not> is_excluded (Some []) n" for n
    by (simp_all add: is_excluded_def)
  moreover have "is_excluded (Some qs) n \<longleftrightarrow> (\<exists>q\<in>set qs. py_in q n)" for n qs
    by (simp add: is_excluded_iff)
  ultimately show ?thesis
    using reads maps has_exclude_patterns_iff by blast
qed

text \<open>
  The theorem with the exclusion list \<^verbatim>\<open>["pooler"]\<close> and a checkpoint of two
  variables: only the embedding table is read and converted.
\<close>

theorem exclusion_complete_witness:
  "''pooler'' \<in> set [''pooler''] \<and>
   py_in ''pooler'' ''bert/pooler/dense/kernel'' \<and>
   ''bert/pooler/dense/kernel'' \<notin> set (fst (convert_names example_tf
      \<lparr>exclude_patterns = Some ''pooler'', num_heads = - 1, use_v2_names = False\<rparr>
      [(''bert/pooler/dense/kernel'', \<lparr>tensor_shape = [2], tensor_elems = [0, 0 :: int]\<rparr>),
       (''bert/embeddings/word_embeddings'', \<lparr>tensor_shape = [2], tensor_elems = [1, 1]\<rparr>)]
      (Some [''pooler'']))) \<and>
   conversion_map (projr (snd (convert_names example_tf
      \<lparr>exclude_patterns = Some ''pooler'', num_heads = - 1, use_v2_names = False\<rparr>
      [(''bert/pooler/dense/kernel'', \<lparr>tensor_shape = [2], tensor_elems = [0, 0 :: int]\<rparr>),
       (''bert/embeddings/word_embeddings'', \<lparr>tensor_shape = [2], tensor_elems = [1, 1]\<rparr>)]
      (Some [''pooler''])))) ''bert/pooler/dense/kernel'' = None \<and>
   dom (new_variable_map (projr (snd (convert_names example_tf
      \<lparr>exclude_patterns = Some ''pooler'', num_heads = - 1, use_v2_names = False\<rparr>
      [(''bert/pooler/dense/kernel'', \<lparr>tensor_shape = [2], tensor_elems = [0, 0 :: int]\<rparr>),
       (''bert/embeddings/word_embeddings'', \<lparr>tensor_shape = [2], tensor_elems = [1, 1]\<rparr>)]
      (Some [''pooler'']))))) = {''bert_model/word_embeddings/embeddings''}"
  using exclusion_complete [of "''pooler''" "[''pooler'']" "''bert/pooler/dense/kernel''"
      example_tf
      "\<lparr>exclude_patterns = Some ''pooler'', num_heads = - 1, use_v2_names = False\<rparr>"
      "[(''bert/pooler/dense/kernel'', \<lparr>tensor_shape = [2], tensor_elems = [0, 0 :: int]\<rparr>),
        (''bert/embeddings/word_embeddings'', \<lparr>tensor_shape = [2], tensor_elems = [1, 1]\<rparr>)]"]
  by (simp add: run_simps)

text \<open>
  Claim C10. If the exclusion list contains the empty string, every name is excluded:
  the loop of the conversion reads nothing and ends with an empty new variable map
  and an empty rename audit. These are the dictionaries handed to the saver, which
  then raises \<^verbatim>\<open>ValueError\<close> for want of a variable to save. A leading, trailing or
  doubled comma in the \<^verbatim>\<open>exclude_patterns\<close> flag puts the empty string into the list
  that \<^verbatim>\<open>main\<close> passes on.
\<close>

theorem empty_pattern_excludes_all:
  "([] \<in> set ps \<longrightarrow>
      is_excluded (Some ps) n \<and>
      convert_names_dictionaries tf FLAGS reader (Some ps) =
        ([], Inr \<lparr>new_variable_map = Map.empty, conversion_map = Map.empty\<rparr>) \<and>
      convert_names tf FLAGS reader (Some ps) = ([], Inl ValueError)) \<and>
   (exclude_patterns FLAGS = Some s \<and>
      (s = CHR '','' # r \<or> s = r @ '','' \<or> s = a @ '',,'' @ b) \<longrightarrow>
      [] \<in> set (str_split CHR '','' [] s) \<and>
      main tf FLAGS reader =
        convert_names tf FLAGS reader (Some (str_split CHR '','' [] s)) \<and>
      convert_names_dictionaries tf FLAGS reader (Some (str_split CHR '','' [] s)) =
        ([], Inr \<lparr>new_variable_map = Map.empty, conversion_map = Map.empty\<rparr>) \<and>
      main tf FLAGS reader = ([], Inl ValueError))"
proof (intro conjI impI)
  assume e: "[] \<in> set ps"
  then show "is_excluded (Some ps) n"
    by (rule excluded_by_empty_pattern)
  from e show "convert_names_dictionaries tf FLAGS reader (Some ps) =
        ([], Inr \<lparr>new_variable_map = Map.empty, conversion_map = Map.empty\<rparr>)"
    by (rule dictionaries_empty_pattern)
  from e show "convert_names tf FLAGS reader (Some ps) = ([], Inl ValueError)"
    by (rule convert_names_empty_pattern)
next
  assume a: "exclude_patterns FLAGS = Some s \<and>
      (s = CHR '','' # r \<or> s = r @ '','' \<or> s = a @ '',,'' @ b)"
  then have ne: "s \<noteq> []" by auto
  from a show e: "[] \<in> set (str_split CHR '','' [] s)"
    using split_leading [of "CHR '',''" r] split_trailing [of "CHR '',''" "[]" r]
      split_doubled [of "CHR '',''" "[]" a b]
    by auto
  from a ne show m: "main tf FLAGS reader =
      convert_names tf FLAGS reader (Some (str_split CHR '','' [] s))"
    by (simp add: main_def)
  from e show "convert_names_dictionaries tf FLAGS reader (Some (str_split CHR '','' [] s)) =
        ([], Inr \<lparr>new_variable_map = Map.empty, conversion_map = Map.empty\<rparr>)"
    by (rule dictionaries_empty_pattern)
  from m convert_names_empty_pattern [OF e]
  show "main tf FLAGS reader = ([], Inl ValueError)"
    by simp
qed

text \<open>
  The theorem for the flag value \<^verbatim>\<open>"pooler,"\<close>, which splits into \<^verbatim>\<open>"pooler"\<close> and
  the empty string.
\<close>

theorem empty_pattern_excludes_all_witness:
  "[] \<in> set [''pooler'', ''''] \<and>
   is_excluded (Some [''pooler'', '''']) ''bert/embeddings/word_embeddings'' \<and>
   str_split CHR '','' [] ''pooler,'' = [''pooler'', ''''] \<and>
   convert_names_dictionaries example_tf
     \<lparr>exclude_patterns = Some ''pooler,'', num_heads = 12, use_v2_names = False\<rparr>
     [(''bert/pooler/dense/kernel'', \<lparr>tensor_shape = [2], tensor_elems = [0, 0 :: int]\<rparr>),
      (''bert/embeddings/word_embeddings'', \<lparr>tensor_shape = [2], tensor_elems = [1, 1]\<rparr>)]
     (Some [''pooler'', '''']) =
       ([], Inr \<lparr>new_variable_map = Map.empty, conversion_map = Map.empty\<rparr>) \<and>
   main example_tf
     \<lparr>exclude_patterns = Some ''pooler,'', num_heads = 12, use_v2_names = False\<rparr>
     [(''bert/pooler/dense/kernel'', \<lparr>tensor_shape = [2], tensor_elems = [0, 0 :: int]\<rparr>),
      (''bert/embeddings/word_embeddings'', \<lparr>tensor_shape = [2], tensor_elems = [1, 1]\<rparr>)] =
       ([], Inl ValueError)"
  using empty_pattern_excludes_all [of "[''pooler'', '''']"
      "''bert/embeddings/word_embeddings''" example_tf
      "\<lparr>exclude_patterns = Some ''pooler,'', num_heads = 12, use_v2_names = False\<rparr>"
      "[(''bert/pooler/dense/kernel'', \<lparr>tensor_shape = [2], tensor_elems = [0, 0 :: int]\<rparr>),
        (''bert/embeddings/word_embeddings'', \<lparr>tensor_shape = [2], tensor_elems = [1, 1]\<rparr>)]"
      "''pooler,''" "''pooler''" "[]" "[]"]
  by simp

section \<open>The shape transformer on attention projections\<close>

text \<open>
  Claim C2, as amended. For every name that contains one of the query, value and key
  patterns and \<^verbatim>\<open>kernel\<close>, but neither \<^verbatim>\<open>attention/output/dense/kernel\<close> nor
  \<^verbatim>\<open>attention/output/dense/bias\<close> (the two rules tested first), a 2-D shape
  \<open>(rows, cols)\<close> and a positive head count give \<open>(rows, head_count, cols // head_count)\<close>;
  shape \<open>(768, 768)\<close> with 12 heads gives \<open>(768, 12, 64)\<close>.
\<close>

theorem qkv_kernel_shape:
  assumes "py_in ''attention/self/query'' name \<or> py_in ''attention/self/value'' name \<or>
           py_in ''attention/self/key'' name"
    and "py_in ''kernel'' name"
    and "\<not> py_in ''attention/output/dense/kernel'' name"
    and "\<not> py_in ''attention/output/dense/bias'' name"
  shows "(0 < h \<longrightarrow> get_new_shape name [rows, cols] h = Inr (Some [rows, h, cols div h])) \<and>
         get_new_shape name [768, 768] 12 = Inr (Some [768, 12, 64])"
  using assms by (auto simp: shape_simps)

text \<open>The theorem at the query kernel of layer 0 with shape \<open>(768, 768)\<close> and 12 heads.\<close>

theorem qkv_kernel_shape_witness:
  "(py_in ''attention/self/query'' ''bert/encoder/layer_0/attention/self/query/kernel'' \<or>
    py_in ''attention/self/value'' ''bert/encoder/layer_0/attention/self/query/kernel'' \<or>
    py_in ''attention/self/key'' ''bert/encoder/layer_0/attention/self/query/kernel'') \<and>
   py_in ''kernel'' ''bert/encoder/layer_0/attention/self/query/kernel'' \<and>
   \<not> py_in ''attention/output/dense/kernel'' ''bert/encoder/layer_0/attention/self/query/kernel'' \<and>
   \<not> py_in ''attention/output/dense/bias'' ''bert/encoder/layer_0/attention/self/query/kernel'' \<and>
   (0 :: int) < 12 \<and>
   get_new_shape ''bert/encoder/layer_0/attention/self/query/kernel'' [768, 768] 12 =
     Inr (Some [768, 12, 768 div 12]) \<and>
   get_new_shape ''bert/encoder/layer_0/attention/self/query/kernel'' [768, 768] 12 =
     Inr (Some [768, 12, 64])"
  using qkv_kernel_shape [of "''bert/encoder/layer_0/attention/self/query/kernel''" 12 768 768]
  by simp

text \<open>
  Claim C2 as written fails for a name that also contains
  \<^verbatim>\<open>attention/output/dense/kernel\<close>: the output-kernel rule is tested first and
  splits the rows, not the columns.
\<close>

theorem qkv_kernel_precedence_counterexample:
  "py_in ''attention/self/query'' ''attention/self/query/attention/output/dense/kernel'' \<and>
   py_in ''kernel'' ''attention/self/query/attention/output/dense/kernel'' \<and>
   (0 :: int) < 2 \<and>
   get_new_shape ''attention/self/query/attention/output/dense/kernel'' [4, 6] 2 =
     Inr (Some [2, 2, 6]) \<and>
   get_new_shape ''attention/self/query/attention/output/dense/kernel'' [4, 6] 2 \<noteq>
     Inr (Some [4, 2, 6 div 2])"
  by (simp add: shape_simps)

text \<open>
  Claim C3, as amended. For every name that contains one of the query, value and key
  patterns and \<^verbatim>\<open>bias\<close>, but neither \<^verbatim>\<open>kernel\<close> nor
  \<^verbatim>\<open>attention/output/dense/bias\<close> (the rule tested before the loop), a 1-D shape
  \<open>(d,)\<close> and a positive head count give \<open>(head_count, d // head_count)\<close>; shape
  \<open>(768,)\<close> with 12 heads gives \<open>(12, 64)\<close>.
\<close>

theorem qkv_bias_shape:
  assumes "py_in ''attention/self/query'' name \<or> py_in ''attention/self/value'' name \<or>
           py_in ''attention/self/key'' name"
    and "py_in ''bias'' name"
    and "\<not> py_in ''kernel'' name"
    and "\<not> py_in ''attention/output/dense/bias'' name"
  shows "(0 < h \<longrightarrow> get_new_shape name [d] h = Inr (Some [h, d div h])) \<and>
         get_new_shape name [768] 12 = Inr (Some [12, 64])"
  using assms kernel_in_output_kernel [of name] by (auto simp: shape_simps)

text \<open>The theorem at the query bias of layer 0 with shape \<open>(768,)\<close> and 12 heads.\<close>

theorem qkv_bias_shape_witness:
  "(py_in ''attention/self/query'' ''bert/encoder/layer_0/attention/self/query/bias'' \<or>
    py_in ''attention/self/value'' ''bert/encoder/layer_0/attention/self/query/bias'' \<or>
    py_in ''attention/self/key'' ''bert/encoder/layer_0/attention/self/query/bias'') \<and>
   py_in ''bias'' ''bert/encoder/layer_0/attention/self/query/bias'' \<and>
   \<not> py_in ''kernel'' ''bert/encoder/layer_0/attention/self/query/bias'' \<and>
   \<not> py_in ''attention/output/dense/bias'' ''bert/encoder/layer_0/attention/self/query/bias'' \<and>
   (0 :: int) < 12 \<and>
   get_new_shape ''bert/encoder/layer_0/attention/self/query/bias'' [768] 12 =
     Inr (Some [12, 768 div 12]) \<and>
   get_new_shape ''bert/encoder/layer_0/attention/self/query/bias'' [768] 12 =
     Inr (Some [12, 64])"
  using qkv_bias_shape [of "''bert/encoder/layer_0/attention/self/query/bias''" 12 768]
  by simp

text \<open>
  Claim C3 as written fails for a name that also contains
  \<^verbatim>\<open>attention/output/dense/bias\<close>: that rule is tested first and returns the shape
  as it is.
\<close>

theorem qkv_bias_precedence_counterexample:
  "py_in ''attention/self/query'' ''attention/self/query/attention/output/dense/bias'' \<and>
   py_in ''bias'' ''attention/self/query/attention/output/dense/bias'' \<and>
   \<not> py_in ''kernel'' ''attention/self/query/attention/output/dense/bias'' \<and>
   (0 :: int) < 2 \<and>
   get_new_shape ''attention/self/query/attention/output/dense/bias'' [6] 2 = Inr (Some [6]) \<and>
   get_new_shape ''attention/self/query/attention/output/dense/bias'' [6] 2 \<noteq>
     Inr (Some [2, 6 div 2])"
  by (simp add: shape_simps)

text \<open>
  Claim C5, as amended. Let the head count be positive and let the transformer
  return a new shape. If the original shape has exactly the rank that the matching
  rule reads (two dimensions for the output kernel and for a query, value or key
  kernel, one for a query, value or key bias) and the head count divides the
  dimension that rule splits, then the new shape has the same product of dimensions
  as the original.
\<close>

theorem reshape_keeps_element_count:
  assumes "0 < h" and "get_new_shape name shp h = Inr (Some ns)"
    and "py_in ''attention/output/dense/kernel'' name \<Longrightarrow> length shp = 2 \<and> h dvd shp ! 0"
    and "\<not> py_in ''attention/output/dense/kernel'' name \<Longrightarrow>
         \<not> py_in ''attention/output/dense/bias'' name \<Longrightarrow>
         py_in ''kernel'' name \<Longrightarrow> length shp = 2 \<and> h dvd shp ! 1"
    and "\<not> py_in ''attention/output/dense/kernel'' name \<Longrightarrow>
         \<not> py_in ''attention/output/dense/bias'' name \<Longrightarrow>
         \<not> py_in ''kernel'' name \<Longrightarrow> py_in ''bias'' name \<Longrightarrow>
         length shp = 1 \<and> h dvd shp ! 0"
  shows "prod_list ns = prod_list shp"
proof (cases "py_in ''attention/output/dense/kernel'' name")
  case True
  with assms(3) obtain r c where "shp = [r, c]" "h dvd r"
    by (cases shp; cases "tl shp") auto
  with True assms(1,2) show ?thesis
    by (auto simp: shape_simps)
next
  case nk: False
  show ?thesis
  proof (cases "py_in ''attention/output/dense/bias'' name")
    case True
    with nk assms(2) show ?thesis by (simp add: shape_simps)
  next
    case nb: False
    show ?thesis
    proof (cases "py_in ''kernel'' name")
      case True
      with assms(4) nk nb obtain r c where "shp = [r, c]" "h dvd c"
        by (cases shp; cases "tl shp") auto
      with True nk nb assms(1,2) show ?thesis
        by (auto simp: shape_simps split: if_splits)
    next
      case False
      show ?thesis
      proof (cases "py_in ''bias'' name")
        case True
        with assms(5) nk nb False obtain d where "shp = [d]" "h dvd d"
          by (cases shp) auto
        with True False nk nb assms(1,2) show ?thesis
          by (auto simp: shape_simps split: if_splits)
      next
        case nbias: False
        with False nk nb assms(2) show ?thesis
          by (auto simp: shape_simps split: if_splits)
      qed
    qed
  qed
qed

text \<open>The theorem at a query kernel of shape \<open>(768, 768)\<close> with 12 heads.\<close>

theorem reshape_keeps_element_count_witness:
  "(0 :: int) < 12 \<and>
   get_new_shape ''bert/encoder/layer_0/attention/self/query/kernel'' [768, 768] 12 =
     Inr (Some [768, 12, 64]) \<and>
   length [768, 768 :: int] = 2 \<and> (12 :: int) dvd [768, 768] ! 1 \<and>
   prod_list [768, 12, 64] = prod_list [768, 768 :: int]"
  using reshape_keeps_element_count [of 12
      "''bert/encoder/layer_0/attention/self/query/kernel''" "[768, 768]" "[768, 12, 64]"]
  by (simp add: shape_simps)

text \<open>
  Claim C5 as written fails for a shape with more dimensions than the rule reads: a
  query kernel of shape \<open>(768, 768, 2)\<close> with 12 heads gets the new shape
  \<open>(768, 12, 64)\<close>, which has half the elements.
\<close>

theorem reshape_rank_counterexample:
  "(0 :: int) < 12 \<and> (12 :: int) dvd 768 \<and>
   get_new_shape ''bert/encoder/layer_0/attention/self/query/kernel'' [768, 768, 2] 12 =
     Inr (Some [768, 12, 64]) \<and>
   prod_list [768, 12, 64] \<noteq> prod_list [768, 768, 2 :: int]"
  by (simp add: shape_simps)

text \<open>
  Claim C4. For every name that contains \<^verbatim>\<open>attention/output/dense/kernel\<close>, a 2-D
  shape \<open>(rows, cols)\<close> and a positive head count give
  \<open>(head_count, rows // head_count, cols)\<close>. The conversion tests the original name:
  a variable with such a name, if TensorFlow accepts the name and the head count
  divides the rows, is reshaped and stored under its rewritten name, although the
  rewritten name (here under the v1 rules) no longer matches any rule.
\<close>

theorem output_kernel_shape:
  assumes "py_in ''attention/output/dense/kernel'' name" and "0 < h"
  shows "get_new_shape name [rows, cols] h = Inr (Some [h, rows div h, cols]) \<and>
    (valid_scope_name tf name \<and> num_heads FLAGS = h \<and> get_tensor reader name = Inr t \<and>
     tensor_shape t = [rows, cols] \<and> 0 \<le> rows \<and> 0 \<le> cols \<and> h dvd rows \<longrightarrow>
       (\<exists>st'. convert_variable tf FLAGS reader name st = Inr st' \<and>
          new_variable_map st' (bert_name_replacement FLAGS name) =
            Some \<lparr>variable_name = name,
                  initial_value = t\<lparr>tensor_shape := [h, rows div h, cols]\<rparr>\<rparr>)) \<and>
    bert_name_replacement \<lparr>exclude_patterns = e, num_heads = h, use_v2_names = False\<rparr>
      ''bert/encoder/layer_0/attention/output/dense/kernel'' =
      ''bert_model/encoder/layer_0/self_attention_output/kernel'' \<and>
    get_new_shape ''bert_model/encoder/layer_0/self_attention_output/kernel'' [rows, cols] h =
      Inr None"
proof -
  have shape: "get_new_shape name [rows, cols] h = Inr (Some [h, rows div h, cols])"
    using assms by (simp add: shape_simps)
  have step: "\<exists>st'. convert_variable tf FLAGS reader name st = Inr st' \<and>
          new_variable_map st' (bert_name_replacement FLAGS name) =
            Some \<lparr>variable_name = name,
                  initial_value = t\<lparr>tensor_shape := [h, rows div h, cols]\<rparr>\<rparr>"
    if "valid_scope_name tf name \<and> num_heads FLAGS = h \<and> get_tensor reader name = Inr t \<and>
     tensor_shape t = [rows, cols] \<and> 0 \<le> rows \<and> 0 \<le> cols \<and> h dvd rows"
    using that assms(2) shape np_reshape_output_kernel [of t rows cols h]
    by (simp add: convert_variable_def Variable_def Let_def)
  have "bert_name_replacement \<lparr>exclude_patterns = e, num_heads = h, use_v2_names = False\<rparr>
      ''bert/encoder/layer_0/attention/output/dense/kernel'' =
      ''bert_model/encoder/layer_0/self_attention_output/kernel''"
    by (simp add: bert_name_replacement_def BERT_NAME_REPLACEMENTS_def)
  moreover have
    "get_new_shape ''bert_model/encoder/layer_0/self_attention_output/kernel'' [rows, cols] h =
      Inr None"
    by (simp add: shape_simps)
  ultimately show ?thesis
    using shape step by blast
qed

text \<open>
  The theorem at the output kernel of layer 0 with shape \<open>(4, 2)\<close> and 2 heads, under
  the v1 rules.
\<close>

theorem output_kernel_shape_witness:
  "py_in ''attention/output/dense/kernel'' ''bert/encoder/layer_0/attention/output/dense/kernel'' \<and>
   (0 :: int) < 2 \<and>
   valid_scope_name example_tf ''bert/encoder/layer_0/attention/output/dense/kernel'' \<and>
   (2 :: int) dvd 4 \<and>
   get_new_shape ''bert/encoder/layer_0/attention/output/dense/kernel'' [4, 2] 2 =
     Inr (Some [2, 2, 2]) \<and>
   convert_variable example_tf \<lparr>exclude_patterns = None, num_heads = 2, use_v2_names = False\<rparr>
     [(''bert/encoder/layer_0/attention/output/dense/kernel'',
       \<lparr>tensor_shape = [4, 2], tensor_elems = [1, 2, 3, 4, 5, 6, 7, 8 :: int]\<rparr>)]
     ''bert/encoder/layer_0/attention/output/dense/kernel''
     \<lparr>new_variable_map = Map.empty, conversion_map = Map.empty\<rparr> =
   Inr \<lparr>new_variable_map =
          [''bert_model/encoder/layer_0/self_attention_output/kernel'' \<mapsto>
             \<lparr>variable_name = ''bert/encoder/layer_0/attention/output/dense/kernel'',
              initial_value =
                \<lparr>tensor_shape = [2, 2, 2], tensor_elems = [1, 2, 3, 4, 5, 6, 7, 8]\<rparr>\<rparr>],
        conversion_map =
          [''bert/encoder/layer_0/attention/output/dense/kernel'' \<mapsto>
             ''bert_model/encoder/layer_0/self_attention_output/kernel'']\<rparr>"
  using output_kernel_shape [of "''bert/encoder/layer_0/attention/output/dense/kernel''" 2 4 2
      example_tf
      "\<lparr>exclude_patterns = None, num_heads = 2, use_v2_names = False\<rparr>"
      "[(''bert/encoder/layer_0/attention/output/dense/kernel'',
         \<lparr>tensor_shape = [4, 2], tensor_elems = [1, 2, 3, 4, 5, 6, 7, 8 :: int]\<rparr>)]"
      "\<lparr>tensor_shape = [4, 2], tensor_elems = [1, 2, 3, 4, 5, 6, 7, 8 :: int]\<rparr>"
      "\<lparr>new_variable_map = Map.empty, conversion_map = Map.empty\<rparr>"]
  by (simp add: run_simps shape_simps np_reshape_def)

section \<open>The name rewriter on the scenarios\<close>

text \<open>
  Claim C6. Under the v1 rules \<^verbatim>\<open>bert/embeddings/word_embeddings\<close> becomes
  \<^verbatim>\<open>bert_model/word_embeddings/embeddings\<close>. The rules are applied in table order,
  each to the result of the rules before it, so a later rule can match text that an
  earlier rule produced: \<^verbatim>\<open>attention/output/dense\<close> does not occur in
  \<^verbatim>\<open>attention/self/output/dense\<close>, but matches once \<^verbatim>\<open>attention/self\<close> has become
  \<^verbatim>\<open>self_attention\<close>.
\<close>

theorem word_embeddings_v1:
  "bert_name_replacement \<lparr>exclude_patterns = e, num_heads = h, use_v2_names = False\<rparr>
     ''bert/embeddings/word_embeddings'' = ''bert_model/word_embeddings/embeddings'' \<and>
   name_replacement_loop (rules @ [(src, tgt)]) name =
     (if py_in src (name_replacement_loop rules name)
      then str_replace (name_replacement_loop rules name) src tgt
      else name_replacement_loop rules name) \<and>
   py_in ''attention/output/dense'' ''attention/self/output/dense'' = False \<and>
   bert_name_replacement \<lparr>exclude_patterns = e, num_heads = h, use_v2_names = False\<rparr>
     ''attention/self/output/dense'' = ''self_self_attention_output''"
  by (simp add: name_replacement_loop_append bert_name_replacement_def
      BERT_NAME_REPLACEMENTS_def)

text \<open>
  Claim C9. The v1 rewriter is not idempotent: it takes \<^verbatim>\<open>bert\<close> to \<^verbatim>\<open>bert_model\<close>
  and \<^verbatim>\<open>bert_model\<close> to \<^verbatim>\<open>bert_model_model\<close>, so rewriting a rewritten name can
  change it again.
\<close>

theorem v1_not_idempotent:
  "bert_name_replacement \<lparr>exclude_patterns = e, num_heads = h, use_v2_names = False\<rparr>
     ''bert'' = ''bert_model'' \<and>
   bert_name_replacement \<lparr>exclude_patterns = e, num_heads = h, use_v2_names = False\<rparr>
     ''bert_model'' = ''bert_model_model'' \<and>
   (\<exists>name.
      bert_name_replacement \<lparr>exclude_patterns = e, num_heads = h, use_v2_names = False\<rparr>
        (bert_name_replacement \<lparr>exclude_patterns = e, num_heads = h, use_v2_names = False\<rparr>
           name) \<noteq>
      bert_name_replacement \<lparr>exclude_patterns = e, num_heads = h, use_v2_names = False\<rparr>
        name)"
proof -
  let ?f = "bert_name_replacement \<lparr>exclude_patterns = e, num_heads = h, use_v2_names = False\<rparr>"
  have 1: "?f ''bert'' = ''bert_model''"
    by (simp add: bert_name_replacement_def BERT_NAME_REPLACEMENTS_def)
  have 2: "?f ''bert_model'' = ''bert_model_model''"
    by (simp add: bert_name_replacement_def BERT_NAME_REPLACEMENTS_def)
  have "?f (?f ''bert'') \<noteq> ?f ''bert''"
    unfolding 1 2 by simp
  then have "\<exists>name. ?f (?f name) \<noteq> ?f name" ..
  with 1 2 show ?thesis by blast
qed

text \<open>
  Claim C7. Under the v2 rules \<^verbatim>\<open>bert/encoder/layer_0/attention/self/query/kernel\<close>
  becomes \<^verbatim>\<open>transformer/layer_0/self_attention/query/kernel\<close>. When the head count is
  \<open>-1\<close>, or any value that is not positive, no variable is reshaped: in every run that
  succeeds, every variable of the new variable map holds the source tensor of its own
  name, shape included. Such a run succeeds whenever TensorFlow accepts the names of
  the variables that are not excluded, at least one variable is not excluded, and the
  session raises nothing.
\<close>

theorem v2_query_kernel_no_reshape:
  assumes "num_heads FLAGS \<le> 0"
  shows "bert_name_replacement (FLAGS\<lparr>use_v2_names := True\<rparr>)
           ''bert/encoder/layer_0/attention/self/query/kernel'' =
           ''transformer/layer_0/self_attention/query/kernel'' \<and>
         (\<forall>st. snd (convert_names tf FLAGS reader excl) = Inr st \<longrightarrow>
            (\<forall>k v. new_variable_map st k = Some v \<longrightarrow>
               (variable_name v, initial_value v) \<in> set reader)) \<and>
         ((\<forall>n \<in> fst ` set reader. is_excluded excl n \<or> valid_scope_name tf n) \<and>
          (\<exists>n \<in> fst ` set reader. \<not> is_excluded excl n) \<and>
          session_error tf = None \<longrightarrow>
            (\<exists>st. snd (convert_names tf FLAGS reader excl) = Inr st))"
proof -
  let ?init = "\<lparr>new_variable_map = Map.empty, conversion_map = Map.empty\<rparr> :: 'a conversion"
  have name: "bert_name_replacement (FLAGS\<lparr>use_v2_names := True\<rparr>)
           ''bert/encoder/layer_0/attention/self/query/kernel'' =
           ''transformer/layer_0/self_attention/query/kernel''"
    by (simp add: bert_name_replacement_def BERT_V2_NAME_REPLACEMENTS_def)
  have same: "(variable_name v, initial_value v) \<in> set reader"
    if ok: "snd (convert_names tf FLAGS reader excl) = Inr st"
      and kv: "new_variable_map st k = Some v" for st k v
  proof -
    from convert_names_run [OF ok] obtain rs where
      "convert_names_loop tf FLAGS reader excl (map fst reader) ([], ?init) = (rs, Inr st)"
      by blast
    from loop_no_reshape [OF assms this kv] show ?thesis
      by simp
  qed
  have succeeds: "\<exists>st. snd (convert_names tf FLAGS reader excl) = Inr st"
    if valid: "\<forall>n \<in> fst ` set reader. is_excluded excl n \<or> valid_scope_name tf n"
      and some: "\<exists>n \<in> fst ` set reader. \<not> is_excluded excl n"
      and session: "session_error tf = None"
  proof -
    from valid have "is_excluded excl n \<or> valid_scope_name tf n"
      if "n \<in> set (map fst reader)" for n
      using that by auto
    with loop_no_reshape_succeeds [OF assms, of "map fst reader" reader excl tf "[]" ?init]
    obtain rs st where run:
      "convert_names_loop tf FLAGS reader excl (map fst reader) ([], ?init) = (rs, Inr st)"
      by auto
    from loop_dom [OF run] some have "dom (new_variable_map st) \<noteq> {}"
      by auto
    then have "new_variable_map st \<noteq> Map.empty"
      by auto
    with run session have "snd (convert_names tf FLAGS reader excl) = Inr st"
      by (simp add: convert_names_def convert_names_dictionaries_def names_of_reader
          Saver_def)
    then show ?thesis ..
  qed
  from name same succeeds show ?thesis
    by blast
qed

text \<open>
  The theorem at a checkpoint with the query kernel of layer 0, the v2 rules and the
  default head count \<open>-1\<close>.
\<close>

theorem v2_query_kernel_no_reshape_witness:
  "(- 1 :: int) \<le> 0 \<and>
   valid_scope_name example_tf ''bert/encoder/layer_0/attention/self/query/kernel'' \<and>
   session_error example_tf = None \<and>
   bert_name_replacement \<lparr>exclude_patterns = None, num_heads = - 1, use_v2_names = True\<rparr>
     ''bert/encoder/layer_0/attention/self/query/kernel'' =
     ''transformer/layer_0/self_attention/query/kernel'' \<and>
   snd (convert_names example_tf
     \<lparr>exclude_patterns = None, num_heads = - 1, use_v2_names = True\<rparr>
     [(''bert/encoder/layer_0/attention/self/query/kernel'',
       \<lparr>tensor_shape = [2, 2], tensor_elems = [1, 2, 3, 4 :: int]\<rparr>)] None) =
   Inr \<lparr>new_variable_map =
          [''transformer/layer_0/self_attention/query/kernel'' \<mapsto>
             \<lparr>variable_name = ''bert/encoder/layer_0/attention/self/query/kernel'',
              initial_value = \<lparr>tensor_shape = [2, 2], tensor_elems = [1, 2, 3, 4]\<rparr>\<rparr>],
        conversion_map =
          [''bert/encoder/layer_0/attention/self/query/kernel'' \<mapsto>
             ''transformer/layer_0/self_attention/query/kernel'']\<rparr>"
  using v2_query_kernel_no_reshape [of
      "\<lparr>exclude_patterns = None, num_heads = - 1, use_v2_names = True\<rparr>"
      example_tf
      "[(''bert/encoder/layer_0/attention/self/query/kernel'',
         \<lparr>tensor_shape = [2, 2], tensor_elems = [1, 2, 3, 4 :: int]\<rparr>)]" None]
  by (simp add: run_simps)

end
